theory Spec2Isabelle
  imports Complex_Main
begin

section \<open>Arrays\<close>

text \<open>
  A numpy array is a shape together with a flat buffer in row-major (C) order.
  The element type is a parameter: the coefficient arrays are complex, the maps are
  float64, idealised here as \<open>real\<close>.
\<close>

datatype 'a ndarray = NDArray (shape_of: "nat list") (data_of: "'a list")

definition wf_array :: "'a ndarray \<Rightarrow> bool" where
  "wf_array a = (length (data_of a) = prod_list (shape_of a))"

text \<open>
  Exceptions. \<open>Propagated\<close> wraps whatever an external library (healpy, pixell, pysm)
  raises; the other constructors are the exceptions raised by the module itself, by the
  interpreter, or by the numpy operations modelled below.
\<close>

datatype 'e error =
    AssertionError
  | ValueError string
  | NameError string
  | TypeError string
  | IndexError string
  | Propagated 'e

text \<open>The \<open>i\<close>-th block of \<open>n\<close> consecutive elements of a buffer.\<close>

definition chunk :: "nat \<Rightarrow> nat \<Rightarrow> 'a list \<Rightarrow> 'a list" where
  "chunk n i xs = take n (drop (i * n) xs)"

text \<open>
  \<open>np.tile(A, reps)\<close>: when \<open>A\<close> has fewer axes than \<open>reps\<close> has entries, \<open>A\<close> is
  promoted by prepending axes of length 1; when it has more, \<open>reps\<close> is promoted by
  prepending 1s. Axis \<open>k\<close> of the result has length \<open>shape[k] * reps[k]\<close>.
  \<open>tile_data\<close> works on shapes of equal length: it tiles every block along the
  remaining axes and then repeats the sequence of blocks.
\<close>

fun tile_data :: "nat list \<Rightarrow> nat list \<Rightarrow> 'a list \<Rightarrow> 'a list" where
  "tile_data (s # sh) (r # rs) xs =
     concat (replicate r
       (concat (map (\<lambda>i. tile_data sh rs (chunk (prod_list sh) i xs)) [0..<s])))"
| "tile_data sh rs xs = xs"

definition pad_shape :: "nat \<Rightarrow> nat list \<Rightarrow> nat list" where
  "pad_shape d sh = replicate (d - length sh) 1 @ sh"

definition np_tile :: "'a ndarray \<Rightarrow> nat list \<Rightarrow> 'a ndarray" where
  "np_tile a reps =
     (let d = max (length reps) (length (shape_of a));
          sh = pad_shape d (shape_of a);
          rs = pad_shape d reps
      in NDArray (map2 (*) sh rs) (tile_data sh rs (data_of a)))"

text \<open>\<open>a.reshape(sh)\<close>: the same buffer under a new shape of the same size.\<close>

definition np_reshape :: "'a ndarray \<Rightarrow> nat list \<Rightarrow> 'e error + 'a ndarray" where
  "np_reshape a sh =
     (if prod_list sh = prod_list (shape_of a) then Inr (NDArray sh (data_of a))
      else Inl (ValueError ''cannot reshape array''))"

text \<open>\<open>a.astype(float)\<close> on an array of reals.\<close>

definition astype_float :: "real ndarray \<Rightarrow> real ndarray" where
  "astype_float a = a"

text \<open>\<open>np.complex128(a)\<close> on an array of complex numbers.\<close>

definition np_complex128 :: "complex ndarray \<Rightarrow> complex ndarray" where
  "np_complex128 a = a"

text \<open>
  Broadcasting of two shapes of equal length (after padding with leading 1s): two axis
  lengths are compatible when they are equal or one of them is 1.
\<close>

fun broadcast_shapes :: "nat list \<Rightarrow> nat list \<Rightarrow> nat list option" where
  "broadcast_shapes [] [] = Some []"
| "broadcast_shapes (a # as) (b # bs) =
     (if a = b \<or> b = 1 then map_option ((#) a) (broadcast_shapes as bs)
      else if a = 1 then map_option ((#) b) (broadcast_shapes as bs)
      else None)"
| "broadcast_shapes as bs = None"

text \<open>
  The buffer of a broadcast binary operation: along an axis of length 1 an operand
  is read at index 0 for every index of the result.
\<close>

fun broadcast_data ::
  "('a \<Rightarrow> 'b \<Rightarrow> 'c) \<Rightarrow> nat list \<Rightarrow> 'a list \<Rightarrow> nat list \<Rightarrow> 'b list \<Rightarrow> 'c list" where
  "broadcast_data f (a # as) xs (b # bs) ys =
     concat (map (\<lambda>i. broadcast_data f
                         as (chunk (prod_list as) (if a = 1 then 0 else i) xs)
                         bs (chunk (prod_list bs) (if b = 1 then 0 else i) ys))
                 [0..<(if a = 1 then b else a)])"
| "broadcast_data f as xs bs ys = map2 f xs ys"

definition np_multiply :: "real ndarray \<Rightarrow> real ndarray \<Rightarrow> 'e error + real ndarray" where
  "np_multiply a b =
     (let d = max (length (shape_of a)) (length (shape_of b));
          sa = pad_shape d (shape_of a);
          sb = pad_shape d (shape_of b)
      in case broadcast_shapes sa sb of
           None \<Rightarrow> Inl (ValueError ''operands could not be broadcast together'')
         | Some sh \<Rightarrow> Inr (NDArray sh (broadcast_data (*) sa (data_of a) sb (data_of b))))"

text \<open>\<open>len(a)\<close> and \<open>a[i]\<close> for a natural number \<open>i\<close>.\<close>

definition np_len :: "'a ndarray \<Rightarrow> 'e error + nat" where
  "np_len a =
     (case shape_of a of
        [] \<Rightarrow> Inl (TypeError ''len() of unsized object'')
      | n # sh \<Rightarrow> Inr n)"

definition np_getitem :: "'a ndarray \<Rightarrow> nat \<Rightarrow> 'e error + 'a ndarray" where
  "np_getitem a i =
     (case shape_of a of
        [] \<Rightarrow> Inl (IndexError ''too many indices for array'')
      | n # sh \<Rightarrow>
          if i < n then Inr (NDArray sh (chunk (prod_list sh) i (data_of a)))
          else Inl (IndexError ''index out of bounds''))"

section \<open>External libraries\<close>

text \<open>
  The \<open>hdu\<close> argument of \<open>hp.read_alm\<close>: a single integer or a tuple of integers.
\<close>

datatype hdu = HduInt nat | HduSeq "nat list"

text \<open>
  healpy, pixell and pysm are not part of the module; their functions are parameters.
  \<open>pixell_imported\<close> records whether the guarded import at the top of the module
  succeeded: when it did not, the names \<open>curvedsky\<close> and \<open>enmap\<close> are unbound.
  \<open>curvedsky_alm2map\<close> gives the pixel values that the call writes into the buffer
  it is handed; \<open>'w\<close> is the type of coordinate-system objects and \<open>'e\<close> the type of
  the exceptions the libraries raise.
\<close>

record ('w, 'e) env =
  pixell_imported :: bool
  hp_read_alm :: "string \<Rightarrow> hdu \<Rightarrow> 'e + complex ndarray"
  hp_alm2map :: "complex ndarray \<Rightarrow> nat \<Rightarrow> 'e + real ndarray"
  enmap_empty :: "nat list \<Rightarrow> 'w \<Rightarrow> 'e + real ndarray"
  curvedsky_alm2map :: "complex ndarray \<Rightarrow> real ndarray \<Rightarrow> 'w \<Rightarrow> 'e + real list"
  enmap_enmap :: "real ndarray \<Rightarrow> 'w \<Rightarrow> 'e + real ndarray"
  convert_units :: "string \<Rightarrow> string \<Rightarrow> real list \<Rightarrow> 'e + real ndarray"

definition propagate :: "'e + 'a \<Rightarrow> 'e error + 'a" where
  "propagate r = (case r of Inl e \<Rightarrow> Inl (Propagated e) | Inr x \<Rightarrow> Inr x)"

section \<open>PrecomputedAlms\<close>

record ('w, 'p) PrecomputedAlms =
  nside :: "nat option"
  shape :: "nat list option"
  wcs :: "'w option"
  filename :: string
  input_units :: string
  pixel_indices :: "'p option"
  has_polarization :: bool
  output_map :: "real ndarray"

text \<open>\<open>t[-2:]\<close> on a tuple.\<close>

definition last2 :: "'a list \<Rightarrow> 'a list" where
  "last2 t = drop (length t - 2) t"

text \<open>
  The constructor. The attributes are assigned first; \<open>output_map\<close> is bound in one of
  the two grid branches, so an object exists only when a branch completes.
  In the rectangular branch \<open>output_map\<close> is bound to the empty buffer and
  \<open>curvedsky.alm2map\<close> then fills that buffer in place.
\<close>

definition init ::
  "('w, 'e) env \<Rightarrow> string \<Rightarrow> nat option \<Rightarrow> nat list option \<Rightarrow> 'w option \<Rightarrow> string \<Rightarrow> bool \<Rightarrow>
   'p option \<Rightarrow> 'e error + ('w, 'p) PrecomputedAlms" where
  "init env fname target_nside target_shape target_wcs in_units has_pol pix =
     (let self = \<lambda>m. \<lparr> nside = target_nside, shape = target_shape, wcs = target_wcs,
                       filename = fname, input_units = in_units, pixel_indices = pix,
                       has_polarization = has_pol, output_map = m \<rparr>
      in case propagate (hp_read_alm env fname (if has_pol then HduSeq [1, 2, 3] else HduInt 1)) of
           Inl e \<Rightarrow> Inl e
         | Inr a \<Rightarrow>
            (let alm = np_complex128 a in
             if target_nside = None then
               (if target_shape \<noteq> None \<and> target_wcs \<noteq> None then
                  (let n_comp = (if has_pol then 3 else 1) in
                   if pixell_imported env then
                     (case propagate (enmap_empty env (n_comp # last2 (the target_shape))
                                        (the target_wcs)) of
                        Inl e \<Rightarrow> Inl e
                      | Inr buf \<Rightarrow>
                         (case propagate (curvedsky_alm2map env alm buf (the target_wcs)) of
                            Inl e \<Rightarrow> Inl e
                          | Inr vals \<Rightarrow> Inr (self (NDArray (shape_of buf) vals))))
                   else Inl (NameError ''enmap''))
                else Inl AssertionError)
             else if target_nside \<noteq> None then
               (case propagate (hp_alm2map env alm (the target_nside)) of
                  Inl e \<Rightarrow> Inl e
                | Inr m \<Rightarrow> Inr (self m))
             else Inl (ValueError ''You must specify either nside or both of shape and wcs'')))"

text \<open>The argument \<open>nu\<close> of \<open>signal\<close>: a number, or a sequence of numbers.\<close>

datatype nu_arg = Scalar real | Seq "real list"

text \<open>
  The \<open>try\<close> block at the head of \<open>signal\<close>: \<open>len(nu)\<close> raises \<open>TypeError\<close> exactly
  for a number, which is then wrapped in a one-element array. The result is the pair
  of \<open>nnu\<close> and the rebound \<open>nu\<close>.
\<close>

definition normalize_nu :: "nu_arg \<Rightarrow> nat \<times> real list" where
  "normalize_nu nu = (case nu of Seq xs \<Rightarrow> (length xs, xs) | Scalar x \<Rightarrow> (1, [x]))"

text \<open>The array that \<open>signal\<close> computes, or the exception it raises.\<close>

definition signal_value ::
  "('w, 'e) env \<Rightarrow> ('w, 'p) PrecomputedAlms \<Rightarrow> nu_arg \<Rightarrow> string \<Rightarrow> 'e error + real ndarray" where
  "signal_value env self nu output_units =
     (let nnu = fst (normalize_nu nu);
          nus = snd (normalize_nu nu);
          out = np_tile (output_map self) [nnu, 1, 1]
      in case (if wcs self \<noteq> None then
                 (if pixell_imported env then propagate (enmap_enmap env out (the (wcs self)))
                  else Inl (NameError ''enmap''))
               else Inr out) of
           Inl e \<Rightarrow> Inl e
         | Inr out \<Rightarrow>
            (case propagate (convert_units env (input_units self) output_units nus) of
               Inl e \<Rightarrow> Inl e
             | Inr cf \<Rightarrow>
                (case np_reshape cf [nnu, 1, 1] of
                   Inl e \<Rightarrow> Inl e
                 | Inr f \<Rightarrow>
                    (case np_multiply out (astype_float f) of
                       Inl e \<Rightarrow> Inl e
                     | Inr out \<Rightarrow>
                        (case np_len out of
                           Inl e \<Rightarrow> Inl e
                         | Inr n \<Rightarrow> if n = 1 then np_getitem out 0 else Inr out)))))"

text \<open>
  \<open>signal\<close> as a state transformer: the outcome of the call and the object after it.
  The body of \<open>signal\<close> binds only the local names \<open>nnu\<close>, \<open>nu\<close> and \<open>out\<close>; every array
  operation in it (\<open>np.tile\<close>, \<open>enmap.enmap\<close>, \<open>*\<close>) builds a new array.
\<close>

definition signal ::
  "('w, 'e) env \<Rightarrow> ('w, 'p) PrecomputedAlms \<Rightarrow> nu_arg \<Rightarrow> string \<Rightarrow>
   ('e error + real ndarray) \<times> ('w, 'p) PrecomputedAlms" where
  "signal env self nu output_units = (signal_value env self nu output_units, self)"

section \<open>Specification vocabulary\<close>

text \<open>
  The buffer the specification promises: one copy of the cached map per conversion
  factor, every element of the copy multiplied by that factor.
\<close>

definition scaled_slices :: "real list \<Rightarrow> real list \<Rightarrow> real list" where
  "scaled_slices xs fs = concat (map (\<lambda>f. map (\<lambda>x. x * f) xs) fs)"

text \<open>
  What healpy documents about shapes, for the two calls of \<open>read_alm\<close> that the
  constructor makes and for the coefficient arrays they return. \<open>read_alm\<close> with \<open>hdu=1\<close>
  returns one coefficient set as a 1-D array, with \<open>hdu=(1, 2, 3)\<close> a 2-D array of three
  rows. \<open>alm2map\<close> returns a 1-D map of \<open>12 * nside\<^sup>2\<close> pixels for a 1-D coefficient array
  and a map of three such rows for three coefficient sets. Nothing is said about other
  \<open>hdu\<close> arguments or other coefficient shapes.
\<close>

definition healpy_contract :: "('w, 'e) env \<Rightarrow> bool" where
  "healpy_contract env =
     ((\<forall>fname a. hp_read_alm env fname (HduInt 1) = Inr a \<longrightarrow> length (shape_of a) = 1) \<and>
      (\<forall>fname a. hp_read_alm env fname (HduSeq [1, 2, 3]) = Inr a \<longrightarrow>
          length (shape_of a) = 2 \<and> hd (shape_of a) = 3) \<and>
      (\<forall>alm n m. hp_alm2map env alm n = Inr m \<longrightarrow>
          (length (shape_of alm) = 1 \<longrightarrow> shape_of m = [12 * n\<^sup>2]) \<and>
          (length (shape_of alm) = 2 \<and> hd (shape_of alm) = 3 \<longrightarrow>
             shape_of m = [3, 12 * n\<^sup>2])))"

text \<open>
  A client that calls \<open>signal\<close> repeatedly on the same object, each call with its own
  \<open>nu\<close> and \<open>output_units\<close>: the outcomes in order, and the object after the last call.
\<close>

fun run_signals ::
  "('w, 'e) env \<Rightarrow> ('w, 'p) PrecomputedAlms \<Rightarrow> (nu_arg \<times> string) list \<Rightarrow>
   ('e error + real ndarray) list \<times> ('w, 'p) PrecomputedAlms" where
  "run_signals env self [] = ([], self)"
| "run_signals env self (c # cs) =
     (let r = signal env self (fst c) (snd c);
          rs = run_signals env (snd r) cs
      in (fst r # fst rs, snd rs))"

section \<open>A mock environment\<close>

text \<open>
  Stand-ins for the libraries, used where the model is run on concrete inputs. Every
  file is readable and holds coefficient sets of length 1; a tuple of one HDU is read
  like an integer \<open>hdu\<close>, into a 1-D array; both synthesis functions
  number the pixels \<open>0, 1, 2, \<dots>\<close>; \<open>enmap.enmap\<close> returns the array it is given; the
  conversion factor is 1 between equal units and the frequency itself otherwise.
\<close>

definition mock_env :: "(unit, string) env" where
  "mock_env =
     \<lparr> pixell_imported = True,
       hp_read_alm = (\<lambda>fname h. case h of
            HduInt k \<Rightarrow> Inr (NDArray [1] [0])
          | HduSeq ks \<Rightarrow>
              if length ks = 1 then Inr (NDArray [1] [0])
              else Inr (NDArray [length ks, 1] (replicate (length ks) 0))),
       hp_alm2map = (\<lambda>alm n.
            Inr (NDArray (butlast (shape_of alm) @ [12 * n\<^sup>2])
                   (map real [0..<prod_list (butlast (shape_of alm)) * (12 * n\<^sup>2)]))),
       enmap_empty = (\<lambda>sh w. Inr (NDArray sh (replicate (prod_list sh) 0))),
       curvedsky_alm2map = (\<lambda>alm buf w. Inr (map real [0..<prod_list (shape_of buf)])),
       enmap_enmap = (\<lambda>a w. Inr a),
       convert_units = (\<lambda>u1 u2 nus.
            Inr (NDArray [length nus] (map (\<lambda>nu. if u1 = u2 then 1 else nu) nus))) \<rparr>"

text \<open>The objects that the constructor builds in the mock environment.\<close>

definition rect_obj :: "(unit, nat list) PrecomputedAlms" where
  "rect_obj = \<lparr> nside = None, shape = Some [2, 2], wcs = Some (), filename = ''alm.fits'',
       input_units = ''uK_RJ'', pixel_indices = None, has_polarization = True,
       output_map = NDArray [3, 2, 2] [0, 1, 2, 3, 4, 5, 6, 7, 8, 9, 10, 11] \<rparr>"

definition rect_obj_unpol :: "(unit, nat list) PrecomputedAlms" where
  "rect_obj_unpol = \<lparr> nside = None, shape = Some [2, 2], wcs = Some (), filename = ''alm.fits'',
       input_units = ''uK_RJ'', pixel_indices = None, has_polarization = False,
       output_map = NDArray [1, 2, 2] [0, 1, 2, 3] \<rparr>"

definition healpix_obj_unpol :: "(unit, nat list) PrecomputedAlms" where
  "healpix_obj_unpol = \<lparr> nside = Some 1, shape = None, wcs = None, filename = ''alm.fits'',
       input_units = ''uK_RJ'', pixel_indices = None, has_polarization = False,
       output_map = NDArray [12] [0, 1, 2, 3, 4, 5, 6, 7, 8, 9, 10, 11] \<rparr>"

definition healpix_obj_pol :: "(unit, nat list) PrecomputedAlms" where
  "healpix_obj_pol = \<lparr> nside = Some 1, shape = None, wcs = None, filename = ''alm.fits'',
       input_units = ''uK_RJ'', pixel_indices = None, has_polarization = True,
       output_map = NDArray [3, 12]
         [0, 1, 2, 3, 4, 5, 6, 7, 8, 9, 10, 11, 12, 13, 14, 15, 16, 17,
          18, 19, 20, 21, 22, 23, 24, 25, 26, 27, 28, 29, 30, 31, 32, 33, 34, 35] \<rparr>"

section \<open>Array lemmas\<close>

lemma chunk_0: "chunk n 0 xs = take n xs"
  by (simp add: chunk_def)

lemma length_chunk: "(Suc i) * n \<le> length xs \<Longrightarrow> length (chunk n i xs) = n"
  by (simp add: chunk_def)

lemma chunk_single: "i < length fs \<Longrightarrow> chunk 1 i fs = [fs ! i]"
  by (simp add: chunk_def take_Suc_conv_app_nth hd_drop_conv_nth take_Suc)

lemma concat_chunks: "length xs = k * n \<Longrightarrow> concat (map (\<lambda>i. chunk n i xs) [0..<k]) = xs"
proof (induction k arbitrary: xs)
  case 0
  then show ?case by simp
next
  case (Suc k)
  have "length (take (k * n) xs) = k * n" using Suc.prems by simp
  from Suc.IH [OF this]
  have ih: "concat (map (\<lambda>i. chunk n i (take (k * n) xs)) [0..<k]) = take (k * n) xs" .
  have same: "\<And>i. i < k \<Longrightarrow> chunk n i (take (k * n) xs) = chunk n i xs"
  proof -
    fix i assume "i < k"
    then have "Suc i \<le> k" by simp
    then have "Suc i * n \<le> k * n" by (rule mult_le_mono1)
    then show "chunk n i (take (k * n) xs) = chunk n i xs"
      by (simp add: chunk_def drop_take min_def)
  qed
  have "concat (map (\<lambda>i. chunk n i xs) [0..<k])
      = concat (map (\<lambda>i. chunk n i (take (k * n) xs)) [0..<k])"
    by (intro arg_cong [where f = concat] map_cong refl same [symmetric]) simp
  also note ih
  finally have "concat (map (\<lambda>i. chunk n i xs) [0..<k]) = take (k * n) xs" .
  moreover have "chunk n k xs = drop (k * n) xs"
    using Suc.prems by (simp add: chunk_def)
  ultimately show ?case by simp
qed

lemma chunk_concat_replicate:
  "i < n \<Longrightarrow> chunk (length xs) i (concat (replicate n xs)) = xs"
proof (induction n arbitrary: i)
  case 0
  then show ?case by simp
next
  case (Suc n)
  show ?case
  proof (cases i)
    case 0
    then show ?thesis by (simp add: chunk_def)
  next
    case (Suc j)
    with Suc.prems have "j < n" by simp
    from Suc.IH [OF this] show ?thesis using Suc by (simp add: chunk_def)
  qed
qed

lemma tile_data_ones:
  "length xs = prod_list sh \<Longrightarrow> tile_data sh (replicate (length sh) 1) xs = xs"
proof (induction sh arbitrary: xs)
  case Nil
  then show ?case by simp
next
  case (Cons s sh)
  have "\<And>i. i < s \<Longrightarrow> tile_data sh (replicate (length sh) 1) (chunk (prod_list sh) i xs)
          = chunk (prod_list sh) i xs"
  proof -
    fix i assume "i < s"
    then have "Suc i \<le> s" by simp
    then have "Suc i * prod_list sh \<le> s * prod_list sh" by (rule mult_le_mono1)
    then have "length (chunk (prod_list sh) i xs) = prod_list sh"
      using Cons.prems by (intro length_chunk) simp
    then show "tile_data sh (replicate (length sh) 1) (chunk (prod_list sh) i xs)
          = chunk (prod_list sh) i xs" by (rule Cons.IH)
  qed
  then have "map (\<lambda>i. tile_data sh (replicate (length sh) 1) (chunk (prod_list sh) i xs)) [0..<s]
      = map (\<lambda>i. chunk (prod_list sh) i xs) [0..<s]"
    by (intro map_cong refl) simp
  then have "concat (map (\<lambda>i. tile_data sh (replicate (length sh) 1) (chunk (prod_list sh) i xs)) [0..<s])
      = concat (map (\<lambda>i. chunk (prod_list sh) i xs) [0..<s])"
    by (rule arg_cong)
  also have "\<dots> = xs" using Cons.prems by (intro concat_chunks) simp
  finally show ?case by simp
qed

lemma broadcast_shapes_ones:
  "broadcast_shapes sh (replicate (length sh) 1) = Some sh"
  by (induction sh) auto

lemma broadcast_data_ones:
  "length xs = prod_list sh \<Longrightarrow>
   broadcast_data f sh xs (replicate (length sh) 1) [y] = map (\<lambda>x. f x y) xs"
proof (induction sh arbitrary: xs)
  case Nil
  then show ?case by (cases xs) auto
next
  case (Cons s sh)
  let ?P = "prod_list sh"
  have one: "prod_list (replicate (length sh) (1::nat)) = 1" by (induction sh) auto
  have step: "\<And>i. i < s \<Longrightarrow>
     broadcast_data f sh (chunk ?P i xs) (replicate (length sh) 1) [y]
       = map (\<lambda>x. f x y) (chunk ?P i xs)"
  proof -
    fix i assume "i < s"
    then have "Suc i \<le> s" by simp
    then have "Suc i * ?P \<le> s * ?P" by (rule mult_le_mono1)
    then have "length (chunk ?P i xs) = ?P"
      using Cons.prems by (intro length_chunk) simp
    then show "broadcast_data f sh (chunk ?P i xs) (replicate (length sh) 1) [y]
       = map (\<lambda>x. f x y) (chunk ?P i xs)" by (rule Cons.IH)
  qed
  have "broadcast_data f (s # sh) xs (replicate (length (s # sh)) 1) [y]
      = concat (map (\<lambda>i. broadcast_data f sh (chunk ?P i xs) (replicate (length sh) 1) [y]) [0..<s])"
    by (cases "s = 1") (simp_all add: one chunk_0)
  also have "\<dots> = concat (map (\<lambda>i. map (\<lambda>x. f x y) (chunk ?P i xs)) [0..<s])"
    by (intro arg_cong [where f = concat] map_cong refl step) simp
  also have "\<dots> = map (\<lambda>x. f x y) (concat (map (\<lambda>i. chunk ?P i xs) [0..<s]))"
    by (simp add: map_concat comp_def)
  also have "concat (map (\<lambda>i. chunk ?P i xs) [0..<s]) = xs"
    using Cons.prems by (intro concat_chunks) simp
  finally show ?case .
qed

lemma prod_list_pad_shape: "prod_list (pad_shape d sh) = prod_list sh"
  by (simp add: pad_shape_def)

lemma pad_shape_3: "length sh \<le> 2 \<Longrightarrow> pad_shape 3 sh = 1 # pad_shape 2 sh"
  by (simp add: pad_shape_def Suc_diff_le numeral_3_eq_3)

lemma length_pad_shape_2: "length sh \<le> 2 \<Longrightarrow> length (pad_shape 2 sh) = 2"
  by (simp add: pad_shape_def)

lemma tile_data_first_axis:
  assumes "length xs = prod_list sh"
  shows "tile_data (1 # sh) (n # replicate (length sh) 1) xs = concat (replicate n xs)"
proof -
  have "tile_data sh (replicate (length sh) 1) xs = xs"
    using assms by (rule tile_data_ones)
  then show ?thesis
    using assms by (simp add: chunk_0)
qed

lemma np_tile_low:
  assumes "wf_array a" and "length (shape_of a) \<le> 2"
  shows "np_tile a [n, 1, 1] = NDArray (n # pad_shape 2 (shape_of a)) (concat (replicate n (data_of a)))"
proof -
  let ?sh = "pad_shape 2 (shape_of a)"
  have len: "length ?sh = 2" using assms(2) by (rule length_pad_shape_2)
  then obtain c p where sh: "?sh = [c, p]"
    by (cases ?sh; cases "tl ?sh") auto
  have lx: "length (data_of a) = prod_list ?sh"
    using assms(1) by (simp add: wf_array_def prod_list_pad_shape)
  have ones: "[1, 1] = replicate (length ?sh) (1::nat)"
    by (simp add: sh)
  have "tile_data (1 # ?sh) (n # [1, 1]) (data_of a) = concat (replicate n (data_of a))"
    unfolding ones using lx by (rule tile_data_first_axis)
  moreover have "map2 (*) (1 # ?sh) [n, 1, 1] = n # ?sh"
    by (simp add: sh)
  moreover have "pad_shape 3 [n, 1, 1] = [n, 1, 1]" by (simp add: pad_shape_def)
  moreover have "max (length [n, 1, 1]) (length (shape_of a)) = 3" using assms(2) by simp
  ultimately show ?thesis
    using assms(2) by (simp only: np_tile_def Let_def pad_shape_3)
qed

lemma np_multiply_slices:
  assumes "length sh = 2" and "length xs = prod_list sh" and "length fs = n"
  shows "np_multiply (NDArray (n # sh) (concat (replicate n xs))) (NDArray [n, 1, 1] fs)
           = Inr (NDArray (n # sh) (scaled_slices xs fs))"
proof -
  let ?X = "concat (replicate n xs)"
  have ones: "[1, 1] = replicate (length sh) (1::nat)"
    by (simp add: assms(1) numeral_2_eq_2)
  have bs: "broadcast_shapes (n # sh) (n # [1, 1]) = Some (n # sh)"
    unfolding ones using broadcast_shapes_ones [of sh] by simp
  have step: "\<And>i. i < n \<Longrightarrow>
      broadcast_data (*) sh (chunk (prod_list sh) (if n = 1 then 0 else i) ?X)
         [1, 1] (chunk (prod_list [1, 1]) (if n = 1 then 0 else i) fs)
      = map (\<lambda>x. x * fs ! i) xs"
  proof -
    fix i assume i: "i < n"
    then have idx: "(if n = 1 then 0 else i) = i" by auto
    have "chunk (prod_list sh) i ?X = xs"
      using chunk_concat_replicate [OF i, of xs] by (simp add: assms(2))
    moreover have "chunk (prod_list [1, 1]) i fs = [fs ! i]"
      using chunk_single [of i fs] i assms(3) by simp
    moreover have "broadcast_data (*) sh xs (replicate (length sh) 1) [fs ! i] = map (\<lambda>x. x * fs ! i) xs"
      using assms(2) by (rule broadcast_data_ones)
    ultimately show "broadcast_data (*) sh (chunk (prod_list sh) (if n = 1 then 0 else i) ?X)
         [1, 1] (chunk (prod_list [1, 1]) (if n = 1 then 0 else i) fs)
      = map (\<lambda>x. x * fs ! i) xs"
      unfolding idx ones by simp
  qed
  have "broadcast_data (*) (n # sh) ?X (n # [1, 1]) fs
      = concat (map (\<lambda>i. broadcast_data (*) sh (chunk (prod_list sh) (if n = 1 then 0 else i) ?X)
         [1, 1] (chunk (prod_list [1, 1]) (if n = 1 then 0 else i) fs)) [0..<(if n = 1 then n else n)])"
    by (simp only: broadcast_data.simps(1))
  also have "\<dots> = concat (map (\<lambda>i. map (\<lambda>x. x * fs ! i) xs) [0..<n])"
    by (intro arg_cong [where f = concat] map_cong step) simp_all
  also have "\<dots> = concat (map (\<lambda>f. map (\<lambda>x. x * f) xs) (map (\<lambda>i. fs ! i) [0..<n]))"
    by (simp add: comp_def)
  also have "map (\<lambda>i. fs ! i) [0..<n] = fs"
    unfolding assms(3) [symmetric] by (rule map_nth)
  finally have bd: "broadcast_data (*) (n # sh) ?X (n # [1, 1]) fs = scaled_slices xs fs"
    by (simp add: scaled_slices_def)
  have "pad_shape 3 (n # sh) = n # sh" "pad_shape 3 [n, 1, 1] = [n, 1, 1]"
    by (simp_all add: pad_shape_def assms(1))
  moreover have "max (length (n # sh)) (length [n, 1, 1]) = 3" by (simp add: assms(1))
  ultimately show ?thesis
    by (simp only: np_multiply_def Let_def ndarray.sel bs bd option.case)
qed

section \<open>Lemmas about the constructor and \<open>signal\<close>\<close>

lemma normalize_nu_length: "length (snd (normalize_nu nu)) = fst (normalize_nu nu)"
  by (cases nu) (simp_all add: normalize_nu_def)

lemma take_scaled_single:
  assumes "length fs = 1"
  shows "take (length xs) (scaled_slices xs fs) = scaled_slices xs fs"
proof -
  from assms obtain f where "fs = [f]" by (cases fs) auto
  then show ?thesis by (simp add: scaled_slices_def)
qed

lemma signal_value_low_dim:
  fixes env :: "('w, 'e) env" and self :: "('w, 'p) PrecomputedAlms"
  assumes nowcs: "wcs self = None"
    and wf: "wf_array (output_map self)"
    and low: "length (shape_of (output_map self)) \<le> 2"
    and cu: "convert_units env (input_units self) ou (snd (normalize_nu nu)) = Inr cf"
    and wfc: "wf_array cf"
    and sz: "prod_list (shape_of cf) = fst (normalize_nu nu)"
  shows "signal_value env self nu ou =
           Inr (NDArray (if fst (normalize_nu nu) = 1 then pad_shape 2 (shape_of (output_map self))
                         else fst (normalize_nu nu) # pad_shape 2 (shape_of (output_map self)))
                  (scaled_slices (data_of (output_map self)) (data_of cf)))"
proof -
  let ?n = "fst (normalize_nu nu)"
  let ?sh = "pad_shape 2 (shape_of (output_map self))"
  let ?xs = "data_of (output_map self)"
  let ?fs = "data_of cf"
  have tile: "np_tile (output_map self) [?n, 1, 1] = NDArray (?n # ?sh) (concat (replicate ?n ?xs))"
    using wf low by (rule np_tile_low)
  have lf: "length ?fs = ?n" using wfc sz by (simp add: wf_array_def)
  have resh: "np_reshape cf [?n, 1, 1] = (Inr (NDArray [?n, 1, 1] ?fs) :: 'e error + real ndarray)"
    using sz by (simp add: np_reshape_def)
  have len2: "length ?sh = 2" using low by (rule length_pad_shape_2)
  have lx: "length ?xs = prod_list ?sh"
    using wf by (simp add: wf_array_def prod_list_pad_shape)
  have mul: "np_multiply (NDArray (?n # ?sh) (concat (replicate ?n ?xs))) (NDArray [?n, 1, 1] ?fs)
       = (Inr (NDArray (?n # ?sh) (scaled_slices ?xs ?fs)) :: 'e error + real ndarray)"
    using len2 lx lf by (rule np_multiply_slices)
  let ?R = "NDArray (?n # ?sh) (scaled_slices ?xs ?fs)"
  have core: "signal_value env self nu ou = (if ?n = 1 then np_getitem ?R 0 else Inr ?R)"
    by (simp only: signal_value_def Let_def nowcs tile cu propagate_def resh astype_float_def mul
          np_len_def sum.case list.case ndarray.sel simp_thms if_False if_True)
  show ?thesis
  proof (cases "?n = 1")
    case True
    then have "length ?fs = 1" using lf by simp
    then have "take (length ?xs) (scaled_slices ?xs ?fs) = scaled_slices ?xs ?fs"
      by (rule take_scaled_single)
    then have "np_getitem ?R 0 = (Inr (NDArray ?sh (scaled_slices ?xs ?fs)) :: 'e error + real ndarray)"
      using True lx by (simp add: np_getitem_def chunk_0)
    with True show ?thesis by (simp add: core)
  next
    case False
    then show ?thesis by (simp add: core)
  qed
qed

lemma signal_state: "snd (signal env self nu ou) = self"
  by (simp add: signal_def)

lemma run_signals_state: "snd (run_signals env self cs) = self"
  by (induction cs) (simp_all add: Let_def signal_state)

lemma run_signals_outcomes:
  "fst (run_signals env self cs) = map (\<lambda>c. fst (signal env self (fst c) (snd c))) cs"
  by (induction cs) (simp_all add: Let_def signal_state)

lemma init_healpix:
  "init env fname (Some n) ts tw iu hp pix =
     (case hp_read_alm env fname (if hp then HduSeq [1, 2, 3] else HduInt 1) of
        Inl e \<Rightarrow> Inl (Propagated e)
      | Inr a \<Rightarrow>
          (case hp_alm2map env (np_complex128 a) n of
             Inl e \<Rightarrow> Inl (Propagated e)
           | Inr m \<Rightarrow> Inr \<lparr> nside = Some n, shape = ts, wcs = tw, filename = fname,
                             input_units = iu, pixel_indices = pix, has_polarization = hp,
                             output_map = m \<rparr>))"
  by (simp add: init_def propagate_def Let_def split: sum.splits)

lemma init_missing_descriptor:
  assumes "ts = None \<or> tw = None"
  shows "init env fname None ts tw iu hp pix =
     (case hp_read_alm env fname (if hp then HduSeq [1, 2, 3] else HduInt 1) of
        Inl e \<Rightarrow> Inl (Propagated e)
      | Inr a \<Rightarrow> Inl AssertionError)"
  using assms by (auto simp add: init_def propagate_def Let_def split: sum.splits)

lemma init_no_value_error: "init env fname tn ts tw iu hp pix \<noteq> Inl (ValueError msg)"
  by (auto simp add: init_def propagate_def Let_def split: sum.splits)

lemma init_fields:
  assumes "init env fname tn ts tw iu hp pix = Inr self"
  shows "nside self = tn \<and> shape self = ts \<and> wcs self = tw \<and> filename self = fname \<and>
         input_units self = iu \<and> pixel_indices self = pix \<and> has_polarization self = hp"
  using assms by (auto simp add: init_def propagate_def Let_def split: sum.splits if_splits)

lemma init_healpix_shape:
  assumes c: "healpy_contract env"
    and i: "init env fname (Some n) ts tw iu hp pix = Inr self"
  shows "shape_of (output_map self) = (if hp then [3, 12 * n\<^sup>2] else [12 * n\<^sup>2])"
proof -
  from i obtain a where
    r: "hp_read_alm env fname (if hp then HduSeq [1, 2, 3] else HduInt 1) = Inr a"
    and m: "hp_alm2map env a n = Inr (output_map self)"
    by (auto simp add: init_healpix np_complex128_def split: sum.splits)
  from c m have s1: "length (shape_of a) = 1 \<Longrightarrow> shape_of (output_map self) = [12 * n\<^sup>2]"
    and s3: "length (shape_of a) = 2 \<and> hd (shape_of a) = 3 \<Longrightarrow>
               shape_of (output_map self) = [3, 12 * n\<^sup>2]"
    unfolding healpy_contract_def by blast+
  show ?thesis
  proof (cases hp)
    case True
    with r have "hp_read_alm env fname (HduSeq [1, 2, 3]) = Inr a" by simp
    with c have "length (shape_of a) = 2 \<and> hd (shape_of a) = 3"
      unfolding healpy_contract_def by blast
    with s3 True show ?thesis by simp
  next
    case False
    with r have "hp_read_alm env fname (HduInt 1) = Inr a" by simp
    with c have "length (shape_of a) = 1"
      unfolding healpy_contract_def by blast
    with s1 False show ?thesis by simp
  qed
qed

lemma scaled_slices_unit: "scaled_slices xs (replicate n 1) = concat (replicate n xs)"
  by (induction n) (simp_all add: scaled_slices_def)

lemma np_tile_3d:
  "shape_of (np_tile (NDArray [c, y, x] d) [n, 1, 1]) = [c * n, y, x]"
  by (simp add: np_tile_def pad_shape_def)

lemma broadcast_fails:
  assumes "2 \<le> c" and "2 \<le> n"
  shows "broadcast_shapes [c * n, y, x] [n, 1, 1] = None"
proof -
  have "c * n \<noteq> n" using assms by simp
  moreover have "c * n \<noteq> 1" using assms by simp
  moreover have "n \<noteq> 1" using assms by simp
  ultimately show ?thesis by simp
qed

lemma signal_value_rectangular_fails:
  fixes env :: "('w, 'e) env" and self :: "('w, 'p) PrecomputedAlms"
  assumes sh: "shape_of (output_map self) = [c, y, x]"
    and c: "2 \<le> c"
    and n: "2 \<le> fst (normalize_nu nu)"
    and tag: "\<And>w a r. wcs self = Some w \<Longrightarrow> enmap_enmap env a w = Inr r \<Longrightarrow> shape_of r = shape_of a"
  shows "isl (signal_value env self nu ou)"
proof -
  let ?n = "fst (normalize_nu nu)"
  let ?t = "np_tile (output_map self) [?n, 1, 1]"
  have ts: "shape_of ?t = [c * ?n, y, x]"
    using sh np_tile_3d [of c y x "data_of (output_map self)" ?n]
    by (cases "output_map self") simp
  have mul: "\<And>out f. shape_of out = [c * ?n, y, x] \<Longrightarrow> shape_of f = [?n, 1, 1] \<Longrightarrow>
      isl (np_multiply out f :: 'e error + real ndarray)"
    using broadcast_fails [OF c n] by (simp add: np_multiply_def pad_shape_def Let_def)
  have rest: "\<And>out. shape_of out = [c * ?n, y, x] \<Longrightarrow>
      isl (case propagate (convert_units env (input_units self) ou (snd (normalize_nu nu))) of
             Inl e \<Rightarrow> Inl e
           | Inr cf \<Rightarrow>
              (case np_reshape cf [?n, 1, 1] of
                 Inl e \<Rightarrow> Inl e
               | Inr f \<Rightarrow>
                  (case np_multiply out (astype_float f) of
                     Inl e \<Rightarrow> (Inl e :: 'e error + real ndarray)
                   | Inr out \<Rightarrow>
                      (case np_len out of
                         Inl e \<Rightarrow> Inl e
                       | Inr n \<Rightarrow> if n = 1 then np_getitem out 0 else Inr out))))"
  proof -
    fix out :: "real ndarray" assume o: "shape_of out = [c * ?n, y, x]"
    show "?thesis out"
    proof (cases "propagate (convert_units env (input_units self) ou (snd (normalize_nu nu)))")
      case (Inl e)
      then show ?thesis by simp
    next
      case (Inr cf)
      show ?thesis
      proof (cases "np_reshape cf [?n, 1, 1] :: 'e error + real ndarray")
        case (Inl e)
        with Inr show ?thesis by simp
      next
        case r: (Inr f)
        then have "shape_of f = [?n, 1, 1]"
          by (auto simp add: np_reshape_def split: if_splits)
        from mul [OF o this] obtain e where "np_multiply out f = (Inl e :: 'e error + real ndarray)"
          by (cases "np_multiply out f :: 'e error + real ndarray") auto
        with Inr r show ?thesis by (simp add: astype_float_def)
      qed
    qed
  qed
  show ?thesis
  proof (cases "wcs self")
    case None
    then show ?thesis using rest [OF ts] by (simp add: signal_value_def Let_def del: One_nat_def)
  next
    case (Some w)
    show ?thesis
    proof (cases "pixell_imported env")
      case False
      with Some show ?thesis by (simp add: signal_value_def Let_def)
    next
      case True
      show ?thesis
      proof (cases "enmap_enmap env ?t w")
        case (Inl e)
        with Some True show ?thesis by (simp add: signal_value_def Let_def propagate_def)
      next
        case (Inr r)
        with tag [OF Some Inr] ts have "shape_of r = [c * ?n, y, x]" by simp
        from rest [OF this] have "isl (case (Inr r :: 'e error + real ndarray) of
             Inl e \<Rightarrow> Inl e
           | Inr out \<Rightarrow>
             (case propagate (convert_units env (input_units self) ou (snd (normalize_nu nu))) of
               Inl e \<Rightarrow> Inl e
             | Inr cf \<Rightarrow>
                (case np_reshape cf [?n, 1, 1] of
                   Inl e \<Rightarrow> Inl e
                 | Inr f \<Rightarrow>
                    (case np_multiply out (astype_float f) of
                       Inl e \<Rightarrow> (Inl e :: 'e error + real ndarray)
                     | Inr out \<Rightarrow>
                        (case np_len out of
                           Inl e \<Rightarrow> Inl e
                         | Inr n \<Rightarrow> if n = 1 then np_getitem out 0 else Inr out)))))"
          by (simp only: sum.case)
        moreover have "propagate (enmap_enmap env ?t w) = Inr r"
          using Inr by (simp add: propagate_def)
        ultimately show ?thesis
          using Some True by (simp add: signal_value_def Let_def del: One_nat_def)
      qed
    qed
  qed
qed

lemma signal_value_unit_factor:
  fixes env :: "('w, 'e) env" and self :: "('w, 'p) PrecomputedAlms"
  assumes "wcs self = None"
    and "wf_array (output_map self)"
    and "length (shape_of (output_map self)) \<le> 2"
    and "convert_units env (input_units self) ou (snd (normalize_nu nu)) = Inr cf"
    and "wf_array cf"
    and "prod_list (shape_of cf) = fst (normalize_nu nu)"
    and "data_of cf = replicate (fst (normalize_nu nu)) 1"
  shows "map_sum id data_of (signal_value env self nu ou)
           = Inr (concat (replicate (fst (normalize_nu nu)) (data_of (output_map self))))"
  using signal_value_low_dim [OF assms(1-6)] assms(7)
  by (simp add: scaled_slices_unit)

section \<open>The mock environment at work\<close>

lemma butlast_1d: "length sh = 1 \<Longrightarrow> butlast sh = []"
  by (cases sh) auto

lemma butlast_three_rows: "length sh = 2 \<and> hd sh = 3 \<Longrightarrow> butlast sh = [3::nat]"
  by (cases sh; cases "tl sh") auto

lemma healpy_contract_mock: "healpy_contract mock_env"
  by (auto simp add: healpy_contract_def mock_env_def butlast_1d butlast_three_rows)

lemma init_mock_healpix_unpol:
  "init mock_env ''alm.fits'' (Some 1) None None ''uK_RJ'' False None = Inr healpix_obj_unpol"
  by code_simp

lemma init_mock_healpix_pol:
  "init mock_env ''alm.fits'' (Some 1) None None ''uK_RJ'' True None = Inr healpix_obj_pol"
  by code_simp

lemma init_mock_rect:
  "init mock_env ''alm.fits'' None (Some [2, 2]) (Some ()) ''uK_RJ'' True None = Inr rect_obj"
  by code_simp

lemma init_mock_rect_unpol:
  "init mock_env ''alm.fits'' None (Some [2, 2]) (Some ()) ''uK_RJ'' False None = Inr rect_obj_unpol"
  by code_simp

section \<open>The constructor\<close>

text \<open>
  With \<open>target_nside\<close>, \<open>target_shape\<close> and \<open>target_wcs\<close> all supplied the constructor
  does not raise: it takes the HEALPix branch and stores the rectangular descriptor
  unused. Here the mock file is read, the 12-pixel map is synthesised, and the object is
  returned.
\<close>

theorem init_both_descriptors_succeeds:
  "init mock_env ''alm.fits'' (Some 1) (Some [2, 2]) (Some ()) ''uK_RJ'' False None
     = Inr (healpix_obj_unpol \<lparr> shape := Some [2, 2], wcs := Some () \<rparr>)"
  by code_simp

text \<open>
  C2, as the constructor implements it. Provided the coefficient file is read: when
  \<open>target_nside\<close> is absent and \<open>target_shape\<close> or \<open>target_wcs\<close> is absent, construction
  raises \<open>AssertionError\<close>; when \<open>target_nside\<close> is supplied, the grid dispatch raises
  nothing, whether or not \<open>target_shape\<close> and \<open>target_wcs\<close> are supplied as well: the
  outcome is the HEALPix synthesis of the coefficients, its map cached or its exception
  propagated.
\<close>

theorem init_grid_dispatch:
  assumes "hp_read_alm env fname (if hp then HduSeq [1, 2, 3] else HduInt 1) = Inr a"
  shows "(tn = None \<and> (ts = None \<or> tw = None) \<longrightarrow>
            init env fname tn ts tw iu hp pix = Inl AssertionError) \<and>
         (tn \<noteq> None \<longrightarrow>
            map_sum id output_map (init env fname tn ts tw iu hp pix)
              = map_sum Propagated id (hp_alm2map env (np_complex128 a) (the tn)))"
proof (intro conjI impI)
  assume "tn = None \<and> (ts = None \<or> tw = None)"
  then show "init env fname tn ts tw iu hp pix = Inl AssertionError"
    using assms init_missing_descriptor [of ts tw env fname iu hp pix] by simp
next
  assume "tn \<noteq> None"
  then obtain n where "tn = Some n" by auto
  then show "map_sum id output_map (init env fname tn ts tw iu hp pix)
              = map_sum Propagated id (hp_alm2map env (np_complex128 a) (the tn))"
    using assms by (simp add: init_healpix split: sum.splits)
qed

theorem init_grid_dispatch_witness:
  "init mock_env ''alm.fits'' None None None ''uK_RJ'' False (None :: nat list option) = Inl AssertionError \<and>
   map_sum id output_map
     (init mock_env ''alm.fits'' (Some 1) (Some [2, 2]) (Some ()) ''uK_RJ'' False (None :: nat list option))
     = Inr (NDArray [12] [0, 1, 2, 3, 4, 5, 6, 7, 8, 9, 10, 11])"
proof -
  have r: "hp_read_alm mock_env ''alm.fits'' (if False then HduSeq [1, 2, 3] else HduInt 1)
             = Inr (NDArray [1] [0])"
    by (simp add: mock_env_def)
  have m: "hp_alm2map mock_env (np_complex128 (NDArray [1] [0])) 1
             = Inr (NDArray [12] [0, 1, 2, 3, 4, 5, 6, 7, 8, 9, 10, 11])"
    by code_simp
  from init_grid_dispatch [OF r, of None None None "''uK_RJ''" "None :: nat list option"]
    init_grid_dispatch [OF r, of "Some 1" "Some [2, 2]" "Some ()" "''uK_RJ''" "None :: nat list option"]
    m
  show ?thesis by simp
qed

text \<open>
  C10: no call of the constructor ends in the \<open>ValueError\<close> of the final \<open>else\<close>, because
  the tests \<open>nside is None\<close> and \<open>nside is not None\<close> are exhaustive. When \<open>target_nside\<close> is
  absent and the rectangular descriptor is incomplete, the constructor fails with the
  assertion of the first branch, unless reading the file has already failed.
\<close>

theorem init_value_error_unreachable:
  "init env fname tn ts tw iu hp pix \<noteq> Inl (ValueError msg) \<and>
   (tn = None \<and> (ts = None \<or> tw = None) \<longrightarrow>
      init env fname tn ts tw iu hp pix =
        (case hp_read_alm env fname (if hp then HduSeq [1, 2, 3] else HduInt 1) of
           Inl e \<Rightarrow> Inl (Propagated e)
         | Inr a \<Rightarrow> Inl AssertionError))"
  using init_no_value_error [of env fname tn ts tw iu hp pix msg]
    init_missing_descriptor [of ts tw env fname iu hp pix]
  by blast

theorem init_value_error_unreachable_witness:
  "init mock_env ''alm.fits'' None (Some [2, 2]) None ''uK_RJ'' True (None :: nat list option)
     \<noteq> Inl (ValueError ''You must specify either nside or both of shape and wcs'') \<and>
   init mock_env ''alm.fits'' None (Some [2, 2]) None ''uK_RJ'' True (None :: nat list option)
     = Inl AssertionError"
  using init_value_error_unreachable [of mock_env "''alm.fits''" None "Some [2, 2]" None "''uK_RJ''" True
      "None :: nat list option" "''You must specify either nside or both of shape and wcs''"]
  by (simp add: mock_env_def)

text \<open>
  Without polarization the constructor reads the single HDU 1, so the coefficients are
  one 1-D array and the HEALPix map synthesised from them is 1-D as well: for
  \<open>target_nside = 64\<close> the cached map has shape \<open>(49152,)\<close>, not \<open>(1, 49152)\<close>.
\<close>

theorem output_map_shape_unpolarized_1d:
  "map_sum id (shape_of \<circ> output_map)
     (init mock_env ''alm.fits'' (Some 64) None None ''uK_RJ'' False (None :: nat list option))
     = Inr [49152]"
  by (simp add: init_def mock_env_def propagate_def np_complex128_def)

text \<open>
  C3, as the constructor implements it. For healpy behaving as documented, an object
  constructed with only \<open>target_nside = n\<close> caches a map of shape \<open>(3, 12 * n\<^sup>2)\<close> when
  \<open>has_polarization\<close> is true and a 1-D map of shape \<open>(12 * n\<^sup>2,)\<close> when it is false.
\<close>

theorem output_map_shape_healpix:
  assumes "healpy_contract env"
    and "init env fname (Some n) None None iu hp pix = Inr self"
  shows "shape_of (output_map self) = (if hp then [3, 12 * n\<^sup>2] else [12 * n\<^sup>2])"
  using assms by (rule init_healpix_shape)

theorem output_map_shape_healpix_witness:
  "healpy_contract mock_env \<and>
   init mock_env ''alm.fits'' (Some 1) None None ''uK_RJ'' False None = Inr healpix_obj_unpol \<and>
   shape_of (output_map healpix_obj_unpol) = [12] \<and>
   init mock_env ''alm.fits'' (Some 1) None None ''uK_RJ'' True None = Inr healpix_obj_pol \<and>
   shape_of (output_map healpix_obj_pol) = [3, 12]"
  using output_map_shape_healpix [OF healpy_contract_mock init_mock_healpix_unpol]
    output_map_shape_healpix [OF healpy_contract_mock init_mock_healpix_pol]
    healpy_contract_mock init_mock_healpix_unpol init_mock_healpix_pol
  by simp

text \<open>
  C9: \<open>pixel_indices\<close> is inert. Two constructions that differ only in \<open>pixel_indices\<close>
  fail with the same exception or cache the same map, and every call of \<open>signal\<close> has
  the same outcome on both objects.
\<close>

theorem pixel_indices_inert:
  "map_sum id output_map (init env fname tn ts tw iu hp p)
     = map_sum id output_map (init env fname tn ts tw iu hp q) \<and>
   (init env fname tn ts tw iu hp p = Inr s1 \<and> init env fname tn ts tw iu hp q = Inr s2 \<longrightarrow>
      output_map s1 = output_map s2 \<and>
      fst (signal env s1 nu ou) = fst (signal env s2 nu ou))"
proof (rule conjI [OF _ impI])
  show "map_sum id output_map (init env fname tn ts tw iu hp p)
     = map_sum id output_map (init env fname tn ts tw iu hp q)"
    by (simp add: init_def propagate_def Let_def split: sum.splits)
next
  assume a: "init env fname tn ts tw iu hp p = Inr s1 \<and> init env fname tn ts tw iu hp q = Inr s2"
  then have m: "output_map s1 = output_map s2"
    by (auto simp add: init_def propagate_def Let_def split: sum.splits if_splits)
  from a have "wcs s1 = tw" "wcs s2 = tw" "input_units s1 = iu" "input_units s2 = iu"
    using init_fields [of env fname tn ts tw iu hp p s1] init_fields [of env fname tn ts tw iu hp q s2]
    by simp_all
  with m have "signal_value env s1 nu ou = signal_value env s2 nu ou"
    by (simp add: signal_value_def Let_def cong: sum.case_cong)
  with m show "output_map s1 = output_map s2 \<and> fst (signal env s1 nu ou) = fst (signal env s2 nu ou)"
    by (simp add: signal_def)
qed

theorem pixel_indices_inert_witness:
  "init mock_env ''alm.fits'' (Some 1) None None ''uK_RJ'' False None = Inr healpix_obj_unpol \<and>
   init mock_env ''alm.fits'' (Some 1) None None ''uK_RJ'' False (Some [0, 1, 2])
     = Inr (healpix_obj_unpol \<lparr> pixel_indices := Some [0, 1, 2] \<rparr>) \<and>
   output_map healpix_obj_unpol = output_map (healpix_obj_unpol \<lparr> pixel_indices := Some [0, 1, 2] \<rparr>) \<and>
   fst (signal mock_env healpix_obj_unpol (Seq [100, 150]) ''K_CMB'')
     = fst (signal mock_env (healpix_obj_unpol \<lparr> pixel_indices := Some [0, 1, 2] \<rparr>) (Seq [100, 150]) ''K_CMB'')"
proof -
  have a: "init mock_env ''alm.fits'' (Some 1) None None ''uK_RJ'' False None = Inr healpix_obj_unpol"
    by (rule init_mock_healpix_unpol)
  have b: "init mock_env ''alm.fits'' (Some 1) None None ''uK_RJ'' False (Some [0, 1, 2])
     = Inr (healpix_obj_unpol \<lparr> pixel_indices := Some [0, 1, 2] \<rparr>)"
    by code_simp
  from pixel_indices_inert [of mock_env "''alm.fits''" "Some 1" None None "''uK_RJ''" False None
      "Some [0, 1, 2]" healpix_obj_unpol "healpix_obj_unpol \<lparr> pixel_indices := Some [0, 1, 2] \<rparr>"
      "Seq [100, 150]" "''K_CMB''"] a b
  show ?thesis by simp
qed

section \<open>The signal evaluator\<close>

text \<open>
  A sequence holding a single frequency is answered like a number: \<open>len(out)\<close> is 1 and
  the frequency axis is dropped, so the result is 2-D and not \<open>(1, nComponents, nPix)\<close>.
\<close>

theorem signal_one_element_sequence_2d:
  "init mock_env ''alm.fits'' (Some 1) None None ''uK_RJ'' False None = Inr healpix_obj_unpol \<and>
   map_sum id shape_of (fst (signal mock_env healpix_obj_unpol (Seq [100]) ''K_CMB'')) = Inr [1, 12]"
  by (rule conjI, rule init_mock_healpix_unpol) code_simp

text \<open>
  C4, as \<open>signal\<close> implements it. Take an object constructed with only \<open>target_nside = n\<close>,
  healpy behaving as documented, and a conversion that returns one factor per frequency.
  Then \<open>signal\<close> returns an array of shape \<open>(nComponents, 12 * n\<^sup>2)\<close> for a number, of shape
  \<open>(K, nComponents, 12 * n\<^sup>2)\<close> for a sequence of \<open>K \<noteq> 1\<close> frequencies, and of shape
  \<open>(nComponents, 12 * n\<^sup>2)\<close> for a sequence of one frequency; \<open>nComponents\<close> is 3 with
  polarization and 1 without.
\<close>

theorem signal_shape_healpix:
  fixes env :: "('w, 'e) env" and self :: "('w, 'p) PrecomputedAlms"
  assumes c: "healpy_contract env"
    and i: "init env fname (Some n) None None iu hp pix = Inr self"
    and wf: "wf_array (output_map self)"
    and cu: "convert_units env iu ou (snd (normalize_nu nu)) = Inr cf"
    and wfc: "wf_array cf"
    and sz: "prod_list (shape_of cf) = fst (normalize_nu nu)"
  shows "(\<forall>x. nu = Scalar x \<longrightarrow>
            map_sum id shape_of (fst (signal env self nu ou))
              = Inr [if hp then 3 else 1, 12 * n\<^sup>2]) \<and>
         (\<forall>xs. nu = Seq xs \<and> length xs \<noteq> 1 \<longrightarrow>
            map_sum id shape_of (fst (signal env self nu ou))
              = Inr [length xs, if hp then 3 else 1, 12 * n\<^sup>2]) \<and>
         (\<forall>xs. nu = Seq xs \<and> length xs = 1 \<longrightarrow>
            map_sum id shape_of (fst (signal env self nu ou))
              = Inr [if hp then 3 else 1, 12 * n\<^sup>2])"
proof -
  from i have f: "wcs self = None" "input_units self = iu"
    using init_fields [OF i] by simp_all
  have s: "shape_of (output_map self) = (if hp then [3, 12 * n\<^sup>2] else [12 * n\<^sup>2])"
    using c i by (rule init_healpix_shape)
  then have low: "length (shape_of (output_map self)) \<le> 2" by simp
  have p: "pad_shape 2 (shape_of (output_map self)) = [if hp then 3 else 1, 12 * n\<^sup>2]"
    using s by (simp add: pad_shape_def)
  from cu have cu': "convert_units env (input_units self) ou (snd (normalize_nu nu)) = Inr cf"
    by (simp add: f)
  have v: "map_sum id shape_of (fst (signal env self nu ou))
      = Inr (if fst (normalize_nu nu) = 1 then [if hp then 3 else 1, 12 * n\<^sup>2]
             else [fst (normalize_nu nu), if hp then 3 else 1, 12 * n\<^sup>2])"
    using signal_value_low_dim [OF f(1) wf low cu' wfc sz] p
    by (simp add: signal_def)
  show ?thesis
    using v by (auto simp add: normalize_nu_def)
qed

theorem signal_shape_healpix_witness:
  "healpy_contract mock_env \<and>
   init mock_env ''alm.fits'' (Some 1) None None ''uK_RJ'' False None = Inr healpix_obj_unpol \<and>
   wf_array (output_map healpix_obj_unpol) \<and>
   map_sum id shape_of (fst (signal mock_env healpix_obj_unpol (Scalar 100) ''K_CMB'')) = Inr [1, 12] \<and>
   map_sum id shape_of (fst (signal mock_env healpix_obj_unpol (Seq [100, 150]) ''K_CMB'')) = Inr [2, 1, 12] \<and>
   map_sum id shape_of (fst (signal mock_env healpix_obj_unpol (Seq [100]) ''K_CMB'')) = Inr [1, 12] \<and>
   init mock_env ''alm.fits'' (Some 1) None None ''uK_RJ'' True None = Inr healpix_obj_pol \<and>
   wf_array (output_map healpix_obj_pol) \<and>
   map_sum id shape_of (fst (signal mock_env healpix_obj_pol (Seq [100, 150]) ''K_CMB'')) = Inr [2, 3, 12]"
proof -
  note c = healpy_contract_mock and i = init_mock_healpix_unpol and ip = init_mock_healpix_pol
  have wfp: "wf_array (output_map healpix_obj_pol)"
    by (simp add: wf_array_def healpix_obj_pol_def)
  have wf: "wf_array (output_map healpix_obj_unpol)"
    by (simp add: wf_array_def healpix_obj_unpol_def)
  have cu1: "convert_units mock_env ''uK_RJ'' ''K_CMB'' (snd (normalize_nu (Scalar 100)))
        = Inr (NDArray [1] [100])"
    and cu2: "convert_units mock_env ''uK_RJ'' ''K_CMB'' (snd (normalize_nu (Seq [100, 150])))
        = Inr (NDArray [2] [100, 150])"
    and cu3: "convert_units mock_env ''uK_RJ'' ''K_CMB'' (snd (normalize_nu (Seq [100])))
        = Inr (NDArray [1] [100])"
    by (simp_all add: mock_env_def normalize_nu_def)
  have wfc: "wf_array (NDArray [1] [100 :: real])" "wf_array (NDArray [2] [100, 150 :: real])"
    by (simp_all add: wf_array_def)
  have sz: "prod_list (shape_of (NDArray [1] [100 :: real])) = fst (normalize_nu (Scalar 100))"
    "prod_list (shape_of (NDArray [2] [100, 150 :: real])) = fst (normalize_nu (Seq [100, 150]))"
    "prod_list (shape_of (NDArray [1] [100 :: real])) = fst (normalize_nu (Seq [100]))"
    by (simp_all add: normalize_nu_def)
  from signal_shape_healpix [OF c i wf cu1 wfc(1) sz(1)]
    signal_shape_healpix [OF c i wf cu2 wfc(2) sz(2)]
    signal_shape_healpix [OF c i wf cu3 wfc(1) sz(3)]
    signal_shape_healpix [OF c ip wfp cu2 wfc(2) sz(2)]
    c i wf ip wfp
  show ?thesis by simp
qed

text \<open>
  C1 asks that, for every constructed object and every \<open>nu\<close>, \<open>signal\<close> return the cached
  map times the conversion factor of each frequency slice. \<open>signal_value_low_dim\<close> shows
  this for cached maps with one pixel axis. For a rectangular grid the cached map is
  3-D, \<open>np.tile\<close> with \<open>(nnu, 1, 1)\<close> then stacks the copies along the component axis, and
  with three components and two frequencies the product with the \<open>(2, 1, 1)\<close> factors
  raises instead of returning an array.
\<close>

theorem signal_rectangular_two_frequencies_raises:
  "init mock_env ''alm.fits'' None (Some [2, 2]) (Some ()) ''uK_RJ'' True None = Inr rect_obj \<and>
   fst (signal mock_env rect_obj (Seq [100, 150]) ''K_CMB'')
     = Inl (ValueError ''operands could not be broadcast together'')"
  by (rule conjI, rule init_mock_rect) code_simp

text \<open>
  C5 asks that the result be shaped by the number \<open>N\<close> of frequencies alone: the slice
  \<open>(nComponents, ...spatialDims)\<close> for \<open>N = 1\<close>, the array \<open>(N, nComponents, ...spatialDims)\<close>
  for \<open>N > 1\<close>. The code tests \<open>len(out)\<close>, which for a rectangular grid is \<open>N\<close> times the
  number of components. On the \<open>2 \<times> 2\<close> grid without polarization a single frequency
  yields shape \<open>(2, 2)\<close> instead of \<open>(1, 2, 2)\<close> and two frequencies yield \<open>(2, 2, 2)\<close>
  instead of \<open>(2, 1, 2, 2)\<close>; with polarization two frequencies raise.
\<close>

theorem signal_rectangular_not_shaped_by_nnu:
  "init mock_env ''alm.fits'' None (Some [2, 2]) (Some ()) ''uK_RJ'' False None = Inr rect_obj_unpol \<and>
   fst (signal mock_env rect_obj_unpol (Scalar 100) ''K_CMB'') = Inr (NDArray [2, 2] [0, 100, 200, 300]) \<and>
   fst (signal mock_env rect_obj_unpol (Seq [100, 150]) ''K_CMB'')
     = Inr (NDArray [2, 2, 2] [0, 100, 200, 300, 0, 150, 300, 450]) \<and>
   fst (signal mock_env rect_obj (Seq [30, 40]) ''K_CMB'')
     = Inl (ValueError ''operands could not be broadcast together'')"
  by (intro conjI, rule init_mock_rect_unpol) code_simp+

text \<open>
  C8 asks that \<open>signal\<close> with \<open>output_units\<close> equal to the object's \<open>input_units\<close> return
  the values of the cached map for every object and every \<open>nu\<close>.
  \<open>signal_value_unit_factor\<close> shows this for cached maps with one pixel axis. On the
  rectangular object with polarization the call with two frequencies raises, although
  both conversion factors are 1.
\<close>

theorem signal_rectangular_same_units_raises:
  "init mock_env ''alm.fits'' None (Some [2, 2]) (Some ()) ''uK_RJ'' True None = Inr rect_obj \<and>
   convert_units mock_env (input_units rect_obj) (input_units rect_obj) [100, 150] = Inr (NDArray [2] [1, 1]) \<and>
   fst (signal mock_env rect_obj (Seq [100, 150]) (input_units rect_obj))
     = Inl (ValueError ''operands could not be broadcast together'')"
  by (intro conjI, rule init_mock_rect) code_simp+

section \<open>The object across calls\<close>

text \<open>
  C6: a call of \<open>signal\<close>, whether it returns or raises, leaves every attribute of the
  object as it was, \<open>output_map\<close> included, and so does any sequence of calls. The map is
  synthesised in the constructor only: replacing the reading and synthesis functions of
  the environment does not change what \<open>signal\<close> does.
\<close>

theorem signal_leaves_object_unchanged:
  "snd (signal env self nu ou) = self \<and>
   snd (run_signals env self cs) = self \<and>
   signal (env \<lparr> hp_read_alm := r, hp_alm2map := g, enmap_empty := e, curvedsky_alm2map := c \<rparr>)
       self nu ou
     = signal env self nu ou"
  by (simp add: signal_state run_signals_state)
    (simp add: signal_def signal_value_def Let_def cong: sum.case_cong)

text \<open>
  C7: in any sequence of calls on one object, two calls with the same \<open>nu\<close> and the same
  \<open>output_units\<close> have the same outcome, which is the outcome of that call on the freshly
  constructed object.
\<close>

theorem signal_repeatable:
  assumes "i < length cs" and "j < length cs" and "cs ! i = cs ! j"
  shows "fst (run_signals env self cs) ! i = fst (run_signals env self cs) ! j \<and>
         fst (run_signals env self cs) ! i = fst (signal env self (fst (cs ! i)) (snd (cs ! i)))"
  using assms by (simp add: run_signals_outcomes)

theorem signal_repeatable_witness:
  "(0::nat) < length [(Seq [100, 150], ''K_CMB''), (Scalar 30, ''uK_RJ''), (Seq [100, 150], ''K_CMB'')] \<and>
   (2::nat) < length [(Seq [100, 150], ''K_CMB''), (Scalar 30, ''uK_RJ''), (Seq [100, 150], ''K_CMB'')] \<and>
   fst (run_signals mock_env healpix_obj_unpol
          [(Seq [100, 150], ''K_CMB''), (Scalar 30, ''uK_RJ''), (Seq [100, 150], ''K_CMB'')]) ! 0
     = fst (run_signals mock_env healpix_obj_unpol
          [(Seq [100, 150], ''K_CMB''), (Scalar 30, ''uK_RJ''), (Seq [100, 150], ''K_CMB'')]) ! 2"
  using signal_repeatable [of 0 "[(Seq [100, 150], ''K_CMB''), (Scalar 30, ''uK_RJ''), (Seq [100, 150], ''K_CMB'')]"
      2 mock_env healpix_obj_unpol]
  by simp

end
